theory Spec2Isabelle
  imports Complex_Main
begin

section \<open>P-values of the binomial test, as the notebooks compute them\<close>

text \<open>
  The repository is two notebooks. \<^verbatim>\<open>abtest.ipynb\<close> computes the p-value of a one-sided
  binomial test by hand, \<^verbatim>\<open>1 - stats.binom.cdf(c-1, n=n, p=p)\<close>, and with the library call
  \<^verbatim>\<open>stats.binomtest(c, n=n, p=p0, alternative='greater').pvalue\<close>. The notebook on
  hypothesis testing computes one- and two-tailed p-values from a normal CDF.

  Numbers are Python floats in the notebooks. Here a float is an exact real, or NaN:
  rounding is not modelled, so every statement below is about the quantities the floats
  approximate. Where the notebook stores the floats it printed, they are quoted as they
  stand.
\<close>

subsection \<open>Values and errors\<close>

text \<open>A float: \<open>Some x\<close> is the number \<open>x\<close>, \<open>None\<close> is NaN.\<close>

type_synonym pyfloat = "real option"


datatype py_error = ValueError | TypeError

text \<open>
  numpy, outside the repository: the library functions turn their integer arguments into
  arrays. A Python integer that fits 64 bits (signed, or unsigned from \<open>2^63\<close> on) becomes a
  numeric array; any other becomes an array of objects, on which the library raises
  \<^verbatim>\<open>TypeError\<close>.
\<close>

definition np_int :: "int \<Rightarrow> bool" where
  "np_int i = (- (2 ^ 63) \<le> i \<and> i < 2 ^ 64)"

subsection \<open>The binomial distribution of the statistics library\<close>

text \<open>
  Modelled from the spec: \<^verbatim>\<open>scipy.stats.binom\<close> is library code, outside the repository.
  The spec names what it computes: the CDF of \<open>X ~ Binomial(n, p)\<close>. The probability mass
  function is \<open>C(n,k) p^k (1-p)^(n-k)\<close>; the distribution is defined when \<open>n \<ge> 0\<close> and
  \<open>0 \<le> p \<le> 1\<close> (the library's argument check), and the library returns NaN otherwise.
\<close>

definition binom_argcheck :: "int \<Rightarrow> real \<Rightarrow> bool" where
  "binom_argcheck n p = (0 \<le> n \<and> 0 \<le> p \<and> p \<le> 1)"

definition binom_pmf :: "nat \<Rightarrow> real \<Rightarrow> nat \<Rightarrow> real" where
  "binom_pmf n p k = real (n choose k) * p ^ k * (1 - p) ^ (n - k)"

text \<open>
  Modelled from the spec: \<^verbatim>\<open>stats.binom.cdf(k, n=n, p=p)\<close>, the spec's \<open>CDF(k; n, p)\<close>:
  the sum of the mass function up to \<open>k\<close>, 0 below the support and 1 from \<open>n\<close> on.
\<close>

definition binom_cdf :: "int \<Rightarrow> int \<Rightarrow> real \<Rightarrow> pyfloat" where
  "binom_cdf k n p =
     (if \<not> binom_argcheck n p then None
      else if k < 0 then Some 0
      else if n \<le> k then Some 1
      else Some (\<Sum>i = 0..nat k. binom_pmf (nat n) p i))"

text \<open>
  Modelled from the spec: \<^verbatim>\<open>stats.binom.sf(k, n, p)\<close>, the survival function \<open>P(X > k)\<close>
  that \<^verbatim>\<open>binomtest\<close> evaluates: the sum of the mass function above \<open>k\<close>.
\<close>

definition binom_sf :: "int \<Rightarrow> int \<Rightarrow> real \<Rightarrow> pyfloat" where
  "binom_sf k n p =
     (if \<not> binom_argcheck n p then None
      else if k < 0 then Some 1
      else if n \<le> k then Some 0
      else Some (\<Sum>i = nat k + 1..nat n. binom_pmf (nat n) p i))"

text \<open>
  Modelled from the spec: the probability \<open>P(X \<ge> c)\<close> of \<open>X ~ Binomial(n, p)\<close>, as the sum
  of the mass function over the outcomes it names.
\<close>

definition prob_at_least :: "nat \<Rightarrow> real \<Rightarrow> nat \<Rightarrow> real" where
  "prob_at_least n p c = (\<Sum>k = c..n. binom_pmf n p k)"

subsection \<open>The notebook on A/B tests\<close>

text \<open>
  \<^verbatim>\<open>print(1-stats.binom.cdf(c-1, n=n, p=p))\<close>: the p-value of the one-sided test,
  computed by hand. Subtracting NaN from 1 gives NaN. This is the value of the expression
  once the library has taken its arguments.
\<close>

definition p_value_greater :: "int \<Rightarrow> int \<Rightarrow> real \<Rightarrow> pyfloat" where
  "p_value_greater c n p = map_option (\<lambda>F. 1 - F) (binom_cdf (c - 1) n p)"

text \<open>
  Running the expression: the library raises on an integer numpy does not hold in 64 bits,
  and evaluates the expression otherwise. The expression itself checks nothing.
\<close>

definition run_p_value_greater :: "int \<Rightarrow> int \<Rightarrow> real \<Rightarrow> py_error + pyfloat" where
  "run_p_value_greater c n p =
     (if np_int (c - 1) \<and> np_int n then Inr (p_value_greater c n p) else Inl TypeError)"

text \<open>
  Modelled from the spec: \<^verbatim>\<open>stats.binomtest(k, n=n, p=p, alternative='greater').pvalue\<close>,
  the library's binomial test, which the notebook calls beside the expression above. The
  library checks its arguments (\<open>k\<close> a non-negative integer, \<open>n\<close> at least 1, \<open>k \<le> n\<close>,
  \<open>0 \<le> p \<le> 1\<close>), raises \<^verbatim>\<open>ValueError\<close> when a check fails, and returns the survival
  function at \<open>k - 1\<close> otherwise; the survival function raises \<^verbatim>\<open>TypeError\<close> on an integer
  numpy does not hold in 64 bits.
\<close>

definition binomtest_greater :: "int \<Rightarrow> int \<Rightarrow> real \<Rightarrow> py_error + pyfloat" where
  "binomtest_greater k n p =
     (if k < 0 then Inl ValueError
      else if n < 1 then Inl ValueError
      else if n < k then Inl ValueError
      else if \<not> (0 \<le> p \<and> p \<le> 1) then Inl ValueError
      else if \<not> (np_int (k - 1) \<and> np_int n) then Inl TypeError
      else Inr (binom_sf (k - 1) n p))"

text \<open>
  The output stored in the notebook for the cell that compares the two, at \<open>c = 83\<close>,
  \<open>n = 100\<close>, \<open>p0 = 0.77\<close>:
  \<^verbatim>\<open>
  p-value: 0.09256987367775582
  p-value (with scipy): 0.09256987367775588
  \<close>
\<close>

definition printed_p_value :: real where
  "printed_p_value = 0.09256987367775582"

definition printed_p_value_with_scipy :: real where
  "printed_p_value_with_scipy = 0.09256987367775588"







subsection \<open>The notebook on hypothesis testing\<close>

text \<open>
  The p-values of this notebook are computed from \<^verbatim>\<open>st.norm.cdf(x, loc=mu, scale=sigma)\<close>.
  The normal CDF is library code; it is the parameter \<open>F\<close> below.

  \<^verbatim>\<open>p = 1-st.norm.cdf(xbar, loc=mu, scale=sigma_xbar)\<close>
\<close>

definition one_tailed_p :: "(real \<Rightarrow> real) \<Rightarrow> real \<Rightarrow> real" where
  "one_tailed_p F xbar = 1 - F xbar"

text \<open>\<^verbatim>\<open>p = 2*(1-st.norm.cdf(xbar, loc=mu, scale=sigma_xbar))\<close>\<close>

definition two_sided_p :: "(real \<Rightarrow> real) \<Rightarrow> real \<Rightarrow> real" where
  "two_sided_p F xbar = 2 * (1 - F xbar)"

text \<open>
  \<^verbatim>\<open>p_values = 2*np.minimum(st.norm.cdf(observations, ...), 1-st.norm.cdf(observations, ...))\<close>,
  element by element over the array of observations.
\<close>

definition p_values :: "(real \<Rightarrow> real) \<Rightarrow> real list \<Rightarrow> real list" where
  "p_values F observations = map (\<lambda>x. 2 * min (F x) (1 - F x)) observations"

text \<open>
  A CDF to evaluate these formulas at: that of the uniform distribution on \<open>[0, 1]\<close>. Like
  the normal CDF of the notebook it takes every value strictly between 0 and 1.
\<close>

definition uniform_cdf :: "real \<Rightarrow> real" where
  "uniform_cdf x = max 0 (min 1 x)"

section \<open>The binomial mass function is a probability distribution\<close>

lemma binom_pmf_nonneg: "0 \<le> p \<Longrightarrow> p \<le> 1 \<Longrightarrow> 0 \<le> binom_pmf n p k"
  by (simp add: binom_pmf_def)

text \<open>The masses add up to one: the binomial theorem at \<open>p + (1 - p)\<close>.\<close>

lemma binom_pmf_total: "(\<Sum>k = 0..n. binom_pmf n p k) = 1"
proof -
  have "(p + (1 - p)) ^ n = (\<Sum>k\<le>n. real (n choose k) * p ^ k * (1 - p) ^ (n - k))"
    by (rule binomial_ring)
  then show ?thesis
    by (simp add: binom_pmf_def atMost_atLeast0)
qed

lemma binom_pmf_split:
  assumes "j < n"
  shows "(\<Sum>k = 0..j. binom_pmf n p k) + (\<Sum>k = Suc j..n. binom_pmf n p k) = 1"
proof -
  have "(\<Sum>k = 0..n. binom_pmf n p k)
        = (\<Sum>k = 0..j. binom_pmf n p k) + (\<Sum>k = Suc j..n. binom_pmf n p k)"
    using assms sum.ub_add_nat [of 0 j "\<lambda>k. binom_pmf n p k" "n - j"] by simp
  then show ?thesis
    by (simp add: binom_pmf_total)
qed

lemma binom_lower_nonneg:
  assumes "0 \<le> p" "p \<le> 1"
  shows "0 \<le> (\<Sum>k = 0..j. binom_pmf n p k)"
  by (rule sum_nonneg) (simp add: binom_pmf_nonneg assms)



lemma binom_lower_mono:
  assumes "0 \<le> p" "p \<le> 1" "i \<le> j"
  shows "(\<Sum>k = 0..i. binom_pmf n p k) \<le> (\<Sum>k = 0..j. binom_pmf n p k)"
proof (rule sum_mono2)
  show "finite {0..j}" by simp
  show "{0..i} \<subseteq> {0..j}" using assms(3) by auto
  show "\<And>b. b \<in> {0..j} - {0..i} \<Longrightarrow> 0 \<le> binom_pmf n p b"
    by (simp add: binom_pmf_nonneg assms)
qed

text \<open>One minus the lower tail is the upper tail.\<close>

lemma upper_tail_complement:
  assumes "0 \<le> k" "k < n"
  shows "1 - (\<Sum>i = 0..nat k. binom_pmf (nat n) p i)
         = (\<Sum>i = nat k + 1..nat n. binom_pmf (nat n) p i)"
proof -
  have "nat k < nat n" using assms by simp
  from binom_pmf_split [OF this, of p] show ?thesis by simp
qed

section \<open>Evaluating the sums at numerals\<close>

lemma sum_from_unfold:
  "(\<Sum>i = m..n. f i) = (if n < m then 0 else f m + (\<Sum>i = Suc m..n. f i :: real))"
  by (simp add: sum.atLeast_Suc_atMost)

lemma sum_upto_numeral:
  "(\<Sum>i = 0..numeral k. f i) = (\<Sum>i = 0..pred_numeral k. f i) + (f (numeral k) :: real)"
  by (simp add: numeral_eq_Suc)

lemma sum_upto_one: "(\<Sum>i = 0..Suc 0. f i) = f 0 + (f 1 :: real)"
  by simp

lemmas binom_eval =
  binom_pmf_def binom_cdf_def binom_argcheck_def binomial_fact' fact_numeral power_divide

section \<open>The tails of the binomial distribution\<close>

text \<open>
  The hand-written p-value is the upper tail \<open>P(X \<ge> c)\<close> wherever the distribution is
  defined and \<open>c\<close> is in its support.
\<close>

lemma greater_upper_tail:
  assumes "0 \<le> n" "0 \<le> c" "c \<le> n" "0 \<le> p0" "p0 \<le> 1"
  shows "p_value_greater c n p0 = Some (prob_at_least (nat n) p0 (nat c))"
proof (cases "c = 0")
  case True
  then show ?thesis
    using assms
    by (simp add: p_value_greater_def binom_cdf_def binom_argcheck_def prob_at_least_def
        binom_pmf_total)
next
  case False
  then have k: "0 \<le> c - 1" "c - 1 < n" using assms by simp_all
  have "nat (c - 1) + 1 = nat c" using k by simp
  with upper_tail_complement [OF k, of p0] show ?thesis
    using assms k
    by (simp add: p_value_greater_def binom_cdf_def binom_argcheck_def prob_at_least_def)
qed



text \<open>
  On valid arguments that numpy holds in 64 bits, both ways of computing the p-value
  return one minus the CDF at \<open>c - 1\<close>, as exact values.
\<close>

lemma both_paths_return_the_tail:
  assumes "0 < n" "n < 2 ^ 64" "0 \<le> c" "c \<le> n" "0 < p0" "p0 < 1"
  shows "binomtest_greater c n p0 = Inr (p_value_greater c n p0)"
    and "run_p_value_greater c n p0 = Inr (p_value_greater c n p0)"
proof -
  have r: "np_int (c - 1)" "np_int n" using assms by (simp_all add: np_int_def)
  then show "run_p_value_greater c n p0 = Inr (p_value_greater c n p0)"
    by (simp add: run_p_value_greater_def)
  show "binomtest_greater c n p0 = Inr (p_value_greater c n p0)"
  proof (cases "c = 0")
    case True
    then show ?thesis
      using assms r
      by (simp add: binomtest_greater_def binom_sf_def p_value_greater_def binom_cdf_def
          binom_argcheck_def)
  next
    case False
    then have k: "0 \<le> c - 1" "c - 1 < n" using assms by simp_all
    from upper_tail_complement [OF k, of p0] show ?thesis
      using assms k r
      by (simp add: binomtest_greater_def binom_sf_def p_value_greater_def binom_cdf_def
          binom_argcheck_def)
  qed
qed

section \<open>Evaluating tails at a rational probability\<close>



lemma nat_sum_from_unfold:
  "(\<Sum>i = m..n. f i) = (if n < m then 0 else f m + (\<Sum>i = Suc m..n. f i :: nat))"
  by (simp add: sum.atLeast_Suc_atMost)

lemma choose_numeral:
  "numeral n choose numeral k =
     (if numeral k > (numeral n :: nat) then 0
      else if 2 * numeral k > (numeral n :: nat) then numeral n choose (numeral n - numeral k)
      else fold_atLeastAtMost_nat (*) (numeral n - numeral k + 1) (numeral n) 1
           div fact (numeral k))"
  by (rule binomial_code)

lemmas nat_eval = choose_numeral fold_atLeastAtMost_nat.simps fact_numeral

text \<open>At \<open>p = a / b\<close> every mass is an integer over \<open>b ^ n\<close>.\<close>

lemma binom_pmf_ratio:
  assumes "i \<le> n" "a \<le> b" "0 < b"
  shows "binom_pmf n (real a / real b) i
         = real ((n choose i) * a ^ i * (b - a) ^ (n - i)) / real b ^ n"
proof -
  have "1 - real a / real b = real (b - a) / real b"
    using assms by (simp add: field_simps of_nat_diff)
  moreover have "real b ^ n = real b ^ i * real b ^ (n - i)"
    using assms by (simp flip: power_add)
  ultimately show ?thesis
    by (simp add: binom_pmf_def power_divide)
qed

lemma tail_ratio:
  assumes "k \<le> n" "a \<le> b" "0 < b"
  shows "(\<Sum>i = j..k. binom_pmf n (real a / real b) i)
         = real (\<Sum>i = j..k. (n choose i) * a ^ i * (b - a) ^ (n - i)) / real b ^ n"
proof -
  have "(\<Sum>i = j..k. binom_pmf n (real a / real b) i)
        = (\<Sum>i = j..k. real ((n choose i) * a ^ i * (b - a) ^ (n - i)) / real b ^ n)"
    using assms by (intro sum.cong refl binom_pmf_ratio) simp_all
  then show ?thesis
    by (simp add: sum_divide_distrib)
qed

text \<open>The exact tail at the input of the cell that compares the two computations.\<close>

lemma upper_tail_example:
  "prob_at_least 100 (77/100) 83 = 9256987367775621122876079829812451807137750550828974602745597594721217104473557051051583534970715749220066603620333306053506888322325722718418709569565132192531878408747785822668823153699054146418506 / 100 ^ 100"
proof -
  have "prob_at_least 100 (real 77 / real 100) 83 = real 9256987367775621122876079829812451807137750550828974602745597594721217104473557051051583534970715749220066603620333306053506888322325722718418709569565132192531878408747785822668823153699054146418506 / real 100 ^ 100"
    unfolding prob_at_least_def
    by (subst tail_ratio) (simp_all add: nat_sum_from_unfold nat_eval)
  then show ?thesis by simp
qed

subsection \<open>The curve of the notebook\<close>

























section \<open>The one-sided p-value\<close>

text \<open>
  C1. For every valid input (\<open>n\<close> a positive integer, \<open>0 \<le> c \<le> n\<close>, \<open>p0\<close> in \<open>(0,1)\<close>), the
  p-value the notebook computes for the alternative \<^verbatim>\<open>greater\<close>, one minus the binomial
  CDF at \<open>c - 1\<close>, is the probability \<open>P(X \<ge> c)\<close> of \<open>X ~ Binomial(n, p0)\<close>.
\<close>

theorem p_value_greater_is_upper_tail:
  assumes "0 < n" "0 \<le> c" "c \<le> n" "0 < p0" "p0 < 1"
  shows "p_value_greater c n p0 = Some (prob_at_least (nat n) p0 (nat c))"
  using assms by (simp add: greater_upper_tail)

theorem p_value_greater_is_upper_tail_witness:
  "(0::int) < 10 \<and> (0::int) \<le> 6 \<and> (6::int) \<le> 10 \<and> (0::real) < 1/2 \<and> (1/2::real) < 1
   \<and> p_value_greater 6 10 (1/2) = Some (193/512)"
proof -
  have "prob_at_least 10 (1/2) 6 = 193/512"
    by (simp add: prob_at_least_def binom_eval sum_from_unfold)
  with p_value_greater_is_upper_tail [of 10 6 "1/2"] show ?thesis by simp
qed

text \<open>
  C5. For fixed \<open>n > 0\<close> and \<open>p0\<close> in \<open>(0,1)\<close>, the p-value for \<^verbatim>\<open>greater\<close> does not increase
  with \<open>c\<close>: for \<open>c1 \<le> c2\<close> in \<open>[0, n]\<close>, the p-value at \<open>c2\<close> is at most the one at \<open>c1\<close>.
\<close>

theorem p_value_greater_antimono:
  assumes "0 < n" "0 < p0" "p0 < 1" "0 \<le> c1" "c1 \<le> c2" "c2 \<le> n"
  shows "\<exists>v1 v2. p_value_greater c1 n p0 = Some v1 \<and> p_value_greater c2 n p0 = Some v2
           \<and> v2 \<le> v1"
proof -
  have p: "0 \<le> p0" "p0 \<le> 1" using assms by simp_all
  have "nat (c1 - 1) \<le> nat (c2 - 1)" using assms by simp
  from binom_lower_mono [OF p this, of "nat n"]
  have m: "(\<Sum>i = 0..nat (c1 - 1). binom_pmf (nat n) p0 i)
           \<le> (\<Sum>i = 0..nat (c2 - 1). binom_pmf (nat n) p0 i)" .
  have nn: "0 \<le> (\<Sum>i = 0..nat (c2 - 1). binom_pmf (nat n) p0 i)"
    by (rule binom_lower_nonneg [OF p])
  show ?thesis
    using assms m nn
    by (simp add: p_value_greater_def binom_cdf_def binom_argcheck_def)
qed

theorem p_value_greater_antimono_witness:
  "\<exists>v1 v2. p_value_greater 3 10 (1/2) = Some v1 \<and> p_value_greater 6 10 (1/2) = Some v2
     \<and> v2 \<le> v1"
  using p_value_greater_antimono [of 10 "1/2" 3 6] by simp

text \<open>
  C7. At \<open>c = 0\<close> the p-value for \<^verbatim>\<open>greater\<close> is exactly 1, the probability \<open>P(X \<ge> 0)\<close>;
  in particular at \<open>c = 0\<close>, \<open>n = 10\<close>, \<open>p0 = 0.5\<close>.
\<close>

theorem p_value_greater_at_zero:
  assumes "0 < n" "0 < p0" "p0 < 1"
  shows "p_value_greater 0 n p0 = Some 1 \<and> prob_at_least (nat n) p0 0 = 1"
  using assms
  by (simp add: p_value_greater_def binom_cdf_def binom_argcheck_def prob_at_least_def
      binom_pmf_total)

theorem p_value_greater_at_zero_witness:
  "p_value_greater 0 10 (1/2) = Some 1 \<and> prob_at_least 10 (1/2) 0 = 1"
  using p_value_greater_at_zero [of 10 "1/2"] by simp

text \<open>
  C8. At \<open>n = 50\<close>, \<open>c = 10\<close>, \<open>p0 = 0.1\<close> the p-value for \<^verbatim>\<open>greater\<close> is about 0.0245: the
  exact tail \<open>1 - CDF(9; 50, 0.1)\<close> is within \<open>10^-15\<close> of the printed 0.024537935704591396.
\<close>

theorem conversion_example_p_value:
  "p_value_greater 10 50 (1/10)
     = Some (1226896785229572831487621456013565395633175199067
             / 50000000000000000000000000000000000000000000000000)
   \<and> \<bar>1226896785229572831487621456013565395633175199067
       / 50000000000000000000000000000000000000000000000000 - (0.0245::real)\<bar> < 0.00005
   \<and> \<bar>1226896785229572831487621456013565395633175199067
       / 50000000000000000000000000000000000000000000000000 - (0.024537935704591396::real)\<bar>
       < 1 / 10 ^ 15"
proof -
  have "p_value_greater 10 50 (1/10)
     = Some (1226896785229572831487621456013565395633175199067
             / 50000000000000000000000000000000000000000000000000)"
    by (simp add: p_value_greater_def binom_eval sum_upto_numeral sum_upto_one)
  then show ?thesis by simp
qed

section \<open>The hand-written expression and the library test\<close>

text \<open>
  C9, as claimed: for every valid input the p-value computed by hand equals the p-value
  the library's binomial test returns. The floats do not: at \<open>c = 83\<close>, \<open>n = 100\<close>,
  \<open>p0 = 0.77\<close> the notebook printed two different numbers.
\<close>

theorem printed_p_values_differ:
  "printed_p_value \<noteq> printed_p_value_with_scipy
   \<and> \<bar>printed_p_value - printed_p_value_with_scipy\<bar> = 6 / 10 ^ 17"
  by (simp add: printed_p_value_def printed_p_value_with_scipy_def)

text \<open>
  C9, amended: for every \<open>n > 0\<close> that fits 64 bits, \<open>c\<close> in \<open>[0, n]\<close> and \<open>p0\<close> in \<open>(0,1)\<close>,
  the hand-written expression and the library's binomial test for \<^verbatim>\<open>greater\<close> raise no error
  and compute the same exact value, one minus the CDF at \<open>c - 1\<close>. The floats they return
  agree up to rounding only: at \<open>c = 83\<close>, \<open>n = 100\<close>, \<open>p0 = 0.77\<close> each printed number is
  within \<open>10^-15\<close> of the exact value.
\<close>

theorem manual_p_value_eq_binomtest:
  assumes "0 < n" "n < 2 ^ 64" "0 \<le> c" "c \<le> n" "0 < p0" "p0 < 1"
  shows "binomtest_greater c n p0 = Inr (p_value_greater c n p0)
         \<and> run_p_value_greater c n p0 = Inr (p_value_greater c n p0)
         \<and> (\<exists>v. p_value_greater 83 100 (77/100) = Some v
                \<and> \<bar>printed_p_value - v\<bar> < 1 / 10 ^ 15
                \<and> \<bar>printed_p_value_with_scipy - v\<bar> < 1 / 10 ^ 15)"
proof -
  have v: "p_value_greater 83 100 (77/100) = Some (prob_at_least 100 (77/100) 83)"
    using greater_upper_tail [of 100 83 "77/100"] by simp
  have d: "\<bar>printed_p_value - prob_at_least 100 (77/100) 83\<bar> < 1 / 10 ^ 15"
    "\<bar>printed_p_value_with_scipy - prob_at_least 100 (77/100) 83\<bar> < 1 / 10 ^ 15"
    by (simp_all add: upper_tail_example printed_p_value_def printed_p_value_with_scipy_def)
  from v d have "\<exists>v. p_value_greater 83 100 (77/100) = Some v
                \<and> \<bar>printed_p_value - v\<bar> < 1 / 10 ^ 15
                \<and> \<bar>printed_p_value_with_scipy - v\<bar> < 1 / 10 ^ 15"
    by blast
  with both_paths_return_the_tail [OF assms] show ?thesis by simp
qed

theorem manual_p_value_eq_binomtest_witness:
  "binomtest_greater 83 100 (77/100) = Inr (p_value_greater 83 100 (77/100))
   \<and> run_p_value_greater 83 100 (77/100) = Inr (p_value_greater 83 100 (77/100))"
  using manual_p_value_eq_binomtest [of 100 83 "77/100"] by simp

section \<open>Sample size\<close>



section \<open>Invalid parameters\<close>

text \<open>
  C4, as claimed: the test fails with an error exactly when \<open>n \<le> 0\<close>, \<open>c\<close> is outside
  \<open>[0, n]\<close> or \<open>p0\<close> is outside \<open>[0, 1]\<close>. The hand-written expression does not: at
  \<open>c = n + 1\<close> it returns 0, at \<open>n = 0\<close> it returns 1, and at \<open>p0 = 1.5\<close> it returns NaN.
\<close>

theorem out_of_range_inputs_raise_nothing:
  "run_p_value_greater 11 10 (1/2) = Inr (Some 0)
   \<and> run_p_value_greater 0 0 (1/2) = Inr (Some 1)
   \<and> run_p_value_greater 1 10 (3/2) = Inr None"
  by (simp add: run_p_value_greater_def np_int_def p_value_greater_def binom_cdf_def
      binom_argcheck_def)

text \<open>
  C4, amended: for integers \<open>c - 1\<close> and \<open>n\<close> that numpy holds in 64 bits and every finite
  \<open>p0\<close>, the hand-written expression raises no error and validates nothing. It returns
  NaN when \<open>n < 0\<close> or \<open>p0\<close> is outside \<open>[0, 1]\<close>; otherwise 1 for \<open>c \<le> 0\<close>, 0 for \<open>c > n\<close>,
  and \<open>P(X \<ge> c)\<close> for \<open>c\<close> from 1 to \<open>n\<close>.
\<close>

theorem expression_validates_nothing:
  assumes "np_int (c - 1)" "np_int n"
  shows "run_p_value_greater c n p0 =
           Inr (if n < 0 \<or> p0 < 0 \<or> 1 < p0 then None
                else if c \<le> 0 then Some 1
                else if n < c then Some 0
                else Some (prob_at_least (nat n) p0 (nat c)))"
proof (cases "n < 0 \<or> p0 < 0 \<or> 1 < p0")
  case True
  then show ?thesis
    using assms
    by (auto simp: run_p_value_greater_def p_value_greater_def binom_cdf_def binom_argcheck_def)
next
  case False
  then have v: "0 \<le> n" "0 \<le> p0" "p0 \<le> 1" by simp_all
  show ?thesis
  proof (cases "c \<le> 0 \<or> n < c")
    case True
    then show ?thesis
      using assms v
      by (auto simp: run_p_value_greater_def p_value_greater_def binom_cdf_def binom_argcheck_def)
  next
    case False
    then have "0 \<le> c" "c \<le> n" by simp_all
    from greater_upper_tail [OF v(1) this v(2,3)] show ?thesis
      using assms v False by (simp add: run_p_value_greater_def)
  qed
qed

theorem expression_validates_nothing_witness:
  "run_p_value_greater 6 10 (1/2) = Inr (Some (prob_at_least 10 (1/2) 6))
   \<and> run_p_value_greater 12 10 (1/2) = Inr (Some 0)"
  using expression_validates_nothing [of 6 10 "1/2"] expression_validates_nothing [of 12 10 "1/2"]
  by (simp add: np_int_def)

section \<open>Two-sided p-values\<close>

text \<open>
  C2, as claimed: the two-sided p-value is twice the smaller of the p-values for
  \<^verbatim>\<open>greater\<close> and \<^verbatim>\<open>less\<close>, capped at 1. The two-sided value \<open>2 * (1 - F xbar)\<close> of the notebook
  is not: where the CDF is \<open>1/1000\<close> it is \<open>1.998\<close>, and twice the smaller tail is \<open>0.002\<close>.
\<close>

theorem two_sided_p_is_not_double_min:
  "two_sided_p uniform_cdf (1/1000) = 1998/1000
   \<and> min 1 (2 * min (one_tailed_p uniform_cdf (1/1000)) (uniform_cdf (1/1000))) = 2/1000
   \<and> two_sided_p uniform_cdf (1/1000)
       \<noteq> min 1 (2 * min (one_tailed_p uniform_cdf (1/1000)) (uniform_cdf (1/1000)))"
  by (simp add: two_sided_p_def one_tailed_p_def uniform_cdf_def)

text \<open>
  C2, amended: for every CDF \<open>F\<close> (so \<open>0 \<le> F x \<le> 1\<close>), the two-tailed p-values the notebook
  computes for an array of observations, \<open>2 * min (F x) (1 - F x)\<close>, are twice the smaller
  of the p-value for \<^verbatim>\<open>greater\<close>, \<open>1 - F x\<close>, and the p-value for \<^verbatim>\<open>less\<close>, \<open>F x\<close>; capping at 1
  changes nothing, and no cap is applied. The two-sided value \<open>2 * (1 - F xbar)\<close> equals
  that when \<open>F xbar \<ge> 1/2\<close>, that is when \<open>xbar\<close> is not below the mean, the case the cell's
  comment keeps it for.
\<close>

theorem two_tailed_is_double_min:
  assumes "list_all (\<lambda>x. 0 \<le> F x \<and> F x \<le> 1) observations" "1/2 \<le> F xbar" "F xbar \<le> 1"
  shows "p_values F observations
           = map (\<lambda>x. min 1 (2 * min (one_tailed_p F x) (F x))) observations
         \<and> two_sided_p F xbar = min 1 (2 * min (one_tailed_p F xbar) (F xbar))"
proof
  show "p_values F observations
          = map (\<lambda>x. min 1 (2 * min (one_tailed_p F x) (F x))) observations"
    using assms(1) by (auto simp: p_values_def one_tailed_p_def list_all_iff min_def)
  show "two_sided_p F xbar = min 1 (2 * min (one_tailed_p F xbar) (F xbar))"
    using assms(2,3) by (simp add: two_sided_p_def one_tailed_p_def min_def)
qed

theorem two_tailed_is_double_min_witness:
  "p_values uniform_cdf [1/4, 3/4, 2]
     = map (\<lambda>x. min 1 (2 * min (one_tailed_p uniform_cdf x) (uniform_cdf x))) [1/4, 3/4, 2]
   \<and> two_sided_p uniform_cdf (3/4)
     = min 1 (2 * min (one_tailed_p uniform_cdf (3/4)) (uniform_cdf (3/4)))"
  using two_tailed_is_double_min [of uniform_cdf "[1/4, 3/4, 2]" "3/4"]
  by (simp add: uniform_cdf_def)

section \<open>The range of the p-values\<close>




section \<open>Two-tailed p-values from a CDF\<close>

text \<open>
  C10. For every observation \<open>x\<close> and every CDF \<open>F\<close> (so \<open>0 \<le> F x \<le> 1\<close>), the smaller of
  \<open>F x\<close> and \<open>1 - F x\<close> is at most \<open>1/2\<close>, and the two-tailed p-value the notebook computes,
  twice that minimum with no cap, is in \<open>[0, 1]\<close>.
\<close>

theorem two_tailed_in_unit_interval:
  assumes "list_all (\<lambda>x. 0 \<le> F x \<and> F x \<le> 1) observations"
  shows "list_all (\<lambda>x. min (F x) (1 - F x) \<le> 1/2) observations
         \<and> list_all (\<lambda>v. 0 \<le> v \<and> v \<le> 1) (p_values F observations)"
  using assms by (auto simp: p_values_def list_all_iff min_def)

theorem two_tailed_in_unit_interval_witness:
  "list_all (\<lambda>v. 0 \<le> v \<and> v \<le> 1) (p_values (\<lambda>x. max 0 (min 1 x)) [1/4, 3/4, 2])
   \<and> p_values (\<lambda>x. max 0 (min 1 x)) [1/4, 3/4, 2] = [1/2, 1/2, 0]"
  using two_tailed_in_unit_interval [of "\<lambda>x. max 0 (min 1 x)" "[1/4, 3/4, 2]"]
  by (simp add: p_values_def)

end
